theory Spec2Isabelle
  imports Main "HOL-Library.AList" "HOL-Library.Sublist"
begin

text \<open>
  The CloudWatch handler \<^verbatim>\<open>python3/cloudwatch/src/lambda_function.py\<close>. The functions
  keep their names, without the leading underscore of the private ones. A function
  that changes a dictionary in place returns the changed dictionary, and an exception
  is the \<open>Inl\<close> of a sum.
\<close>

section \<open>Values, dictionaries and the Python runtime\<close>

text \<open>
  The module works on what \<^verbatim>\<open>json.loads\<close> returns: strings, numbers, booleans,
  \<^verbatim>\<open>None\<close>, lists and dictionaries with string keys. A dictionary is an association
  list in insertion order, as a Python \<^verbatim>\<open>dict\<close> is: \<open>AList.update\<close> overwrites the
  value of a key in place and appends a new key at the end. Strings are lists of
  characters; a float is kept as the text of its literal, since the module never
  computes with one.
\<close>

datatype jv =
    JNull
  | JBool bool
  | JInt int
  | JFloat string
  | JStr string
  | JList "jv list"
  | JObj "(string \<times> jv) list"

type_synonym pydict = "(string \<times> jv) list"

text \<open>
  The exceptions the module can meet. \<^verbatim>\<open>binascii.Error\<close>, \<^verbatim>\<open>JSONDecodeError\<close> and
  \<^verbatim>\<open>UnicodeDecodeError\<close> are subclasses of \<^verbatim>\<open>ValueError\<close> and are modelled by
  \<open>ValueError\<close>; \<open>OSError\<close>, \<open>EOFError\<close> and \<open>ZlibError\<close> are what reading a
  broken gzip stream raises, and \<open>RecursionError\<close> is what the JSON parser raises on
  a text that is nested too deep.
\<close>

datatype py_error =
    KeyError
  | ValueError
  | TypeError
  | AttributeError
  | IndexError
  | OSError
  | EOFError
  | ZlibError
  | RecursionError

text \<open>
  What the module takes from its environment: \<^verbatim>\<open>os.environ\<close> and the library
  functions it calls. \<open>json_loads\<close> is \<^verbatim>\<open>json.loads\<close> on a text, with the
  exception it raises when it raises one (\<open>ValueError\<close> on a text that is not JSON);
  \<open>b64decode\<close> is \<^verbatim>\<open>base64.b64decode\<close> on a text (\<open>None\<close> for
  \<^verbatim>\<open>binascii.Error\<close>), \<open>gzip_read\<close> is reading a \<^verbatim>\<open>GzipFile\<close> to its end,
  \<open>json_dumps\<close> is \<^verbatim>\<open>json.dumps\<close>, \<open>py_repr\<close> is \<^verbatim>\<open>repr\<close>, which
  \<^verbatim>\<open>str\<close> returns for every value that is not a string, and \<open>str_lower\<close> is
  the method \<^verbatim>\<open>str.lower\<close>, which follows the case tables of Unicode.
\<close>

record runtime =
  environ :: "string \<rightharpoonup> string"
  b64decode :: "string \<Rightarrow> string option"
  gzip_read :: "string \<Rightarrow> py_error + string"
  json_loads :: "string \<Rightarrow> py_error + jv"
  json_dumps :: "jv \<Rightarrow> string"
  py_repr :: "jv \<Rightarrow> string"
  str_lower :: "string \<Rightarrow> string"

subsection \<open>Constants of the module\<close>

definition LOG_LEVELS :: "string list" where
  "LOG_LEVELS = [''alert'', ''trace'', ''debug'', ''notice'', ''info'', ''warn'',
                 ''warning'', ''error'', ''err'', ''critical'', ''crit'', ''fatal'',
                 ''severe'', ''emerg'', ''emergency'']"

definition LOG_LEVELS_IGNORE :: "string list" where
  "LOG_LEVELS_IGNORE = [''info'']"

definition PYTHON_EVENT_SIZE :: nat where "PYTHON_EVENT_SIZE = 3"
definition LAMBDA_JS_EVENT_SIZE :: nat where "LAMBDA_JS_EVENT_SIZE = 4"
definition NODEJS_EVENT_SIZE :: nat where "NODEJS_EVENT_SIZE = 5"
definition LAMBDA_LOG_GROUP :: string where "LAMBDA_LOG_GROUP = ''/aws/lambda/''"
definition KEY_INDEX :: nat where "KEY_INDEX = 0"
definition VALUE_INDEX :: nat where "VALUE_INDEX = 1"

subsection \<open>Python built-ins\<close>

text \<open>\<^verbatim>\<open>str(v)\<close>: a string is returned as it is, any other value as its \<^verbatim>\<open>repr\<close>.\<close>

definition py_str :: "runtime \<Rightarrow> jv \<Rightarrow> string" where
  "py_str rt v = (case v of JStr s \<Rightarrow> s | _ \<Rightarrow> py_repr rt v)"

text \<open>
  \<^verbatim>\<open>s.split(sep)\<close> for a separator of one character: the text is cut at every
  occurrence, so the result has one part more than there are separators.
\<close>

fun py_split :: "char \<Rightarrow> string \<Rightarrow> string list" where
  "py_split sep [] = [Nil]"
| "py_split sep (c # cs) =
     (if c = sep then [] # py_split sep cs
      else (case py_split sep cs of p # ps \<Rightarrow> (c # p) # ps | [] \<Rightarrow> [c # Nil]))"

definition TAB :: char where "TAB = CHR 0x09"

text \<open>\<^verbatim>\<open>d[k]\<close> raises \<^verbatim>\<open>KeyError\<close> on a missing key.\<close>

definition getitem :: "pydict \<Rightarrow> string \<Rightarrow> py_error + jv" where
  "getitem d k = (case map_of d k of None \<Rightarrow> Inl KeyError | Some v \<Rightarrow> Inr v)"

text \<open>
  \<^verbatim>\<open>needle in v\<close> for a string \<open>needle\<close>: a substring test on a string, membership
  in a list, a key test on a dictionary, and \<^verbatim>\<open>TypeError\<close> on a value that is not
  iterable.
\<close>

definition py_in :: "string \<Rightarrow> jv \<Rightarrow> py_error + bool" where
  "py_in needle v =
     (case v of
        JStr s \<Rightarrow> Inr (sublist needle s)
      | JList xs \<Rightarrow> Inr (JStr needle \<in> set xs)
      | JObj d \<Rightarrow> Inr (map_of d needle \<noteq> None)
      | _ \<Rightarrow> Inl TypeError)"

text \<open>\<^verbatim>\<open>v[k]\<close> for a string \<open>k\<close>: only a dictionary can be read by a string key.\<close>

definition py_subscript :: "jv \<Rightarrow> string \<Rightarrow> py_error + jv" where
  "py_subscript v k = (case v of JObj d \<Rightarrow> getitem d k | _ \<Rightarrow> Inl TypeError)"

text \<open>\<^verbatim>\<open>v.lower()\<close>: only a string has the method.\<close>

definition py_lower :: "runtime \<Rightarrow> jv \<Rightarrow> py_error + string" where
  "py_lower rt v = (case v of JStr s \<Rightarrow> Inr (str_lower rt s) | _ \<Rightarrow> Inl AttributeError)"

text \<open>\<^verbatim>\<open>v.startswith(p)\<close>: only a string has the method.\<close>

definition py_startswith :: "jv \<Rightarrow> string \<Rightarrow> py_error + bool" where
  "py_startswith v p = (case v of JStr s \<Rightarrow> Inr (prefix p s) | _ \<Rightarrow> Inl AttributeError)"

text \<open>\<^verbatim>\<open>v.items()\<close>: only a dictionary has the method.\<close>

definition py_items :: "jv \<Rightarrow> py_error + pydict" where
  "py_items v = (case v of JObj d \<Rightarrow> Inr d | _ \<Rightarrow> Inl AttributeError)"

text \<open>\<^verbatim>\<open>len(v)\<close> and the elements a \<^verbatim>\<open>for\<close> loop over \<open>v\<close> visits.\<close>

definition py_len :: "jv \<Rightarrow> py_error + nat" where
  "py_len v =
     (case v of
        JStr s \<Rightarrow> Inr (length s)
      | JList xs \<Rightarrow> Inr (length xs)
      | JObj d \<Rightarrow> Inr (length d)
      | _ \<Rightarrow> Inl TypeError)"

definition py_iter :: "jv \<Rightarrow> py_error + jv list" where
  "py_iter v =
     (case v of
        JStr s \<Rightarrow> Inr (map (\<lambda>c. JStr [c]) s)
      | JList xs \<Rightarrow> Inr xs
      | JObj d \<Rightarrow> Inr (map (\<lambda>kv. JStr (fst kv)) d)
      | _ \<Rightarrow> Inl TypeError)"

text \<open>
  \<^verbatim>\<open>json.loads(v)\<close>: \<^verbatim>\<open>TypeError\<close> on a value that is not a text, and on a
  text what the parser returns or raises.
\<close>

definition py_json_loads :: "runtime \<Rightarrow> jv \<Rightarrow> py_error + jv" where
  "py_json_loads rt v =
     (case v of
        JStr s \<Rightarrow> json_loads rt s
      | _ \<Rightarrow> Inl TypeError)"

text \<open>\<^verbatim>\<open>d.update(other)\<close>: every item of \<open>other\<close> is stored in \<open>d\<close>, in order.\<close>

definition dict_update :: "pydict \<Rightarrow> pydict \<Rightarrow> pydict" where
  "dict_update d other = fold (\<lambda>kv acc. AList.update (fst kv) (snd kv) acc) other d"

text \<open>
  The invocation context is an object; the model keeps its attributes. Reading an
  attribute the object does not have raises \<^verbatim>\<open>AttributeError\<close>.
\<close>

type_synonym lambda_context = "string \<rightharpoonup> jv"

definition getattr :: "lambda_context \<Rightarrow> string \<Rightarrow> py_error + jv" where
  "getattr obj name = (case obj name of None \<Rightarrow> Inl AttributeError | Some v \<Rightarrow> Inr v)"

section \<open>The decoder\<close>

text \<open>
  \<^verbatim>\<open>_extract_aws_logs_data(event)\<close>. The two subscripts are outside the
  \<^verbatim>\<open>try\<close>; inside it, a \<^verbatim>\<open>ValueError\<close> is raised again as a new
  \<^verbatim>\<open>ValueError\<close> and any other exception passes through.
\<close>

definition decode_body :: "runtime \<Rightarrow> jv \<Rightarrow> py_error + jv" where
  "decode_body rt event_str =
     (case event_str of
        JStr s \<Rightarrow>
          (case b64decode rt s of
             None \<Rightarrow> Inl ValueError
           | Some logs_data_decoded \<Rightarrow>
               (case gzip_read rt logs_data_decoded of
                  Inl e \<Rightarrow> Inl e
                | Inr logs_data_unzipped \<Rightarrow>
                    (case json_loads rt logs_data_unzipped of
                       Inl e \<Rightarrow> Inl e
                     | Inr logs_data_dict \<Rightarrow> Inr logs_data_dict)))
      | _ \<Rightarrow> Inl TypeError)"

definition extract_aws_logs_data :: "runtime \<Rightarrow> jv \<Rightarrow> py_error + jv" where
  "extract_aws_logs_data rt event =
     (case py_subscript event ''awslogs'' of
        Inl e \<Rightarrow> Inl e
      | Inr awslogs \<Rightarrow>
          (case py_subscript awslogs ''data'' of
             Inl e \<Rightarrow> Inl e
           | Inr event_str \<Rightarrow>
               (case decode_body rt event_str of
                  Inl e \<Rightarrow> (if e = ValueError then Inl ValueError else Inl e)
                | Inr logs_data_dict \<Rightarrow> Inr logs_data_dict)))"

section \<open>The record normalizer\<close>

text \<open>
  \<^verbatim>\<open>_extract_lambda_log_message(log)\<close>: the message, split at the tabs. With 3, 4
  or 5 parts the first is the timestamp, the second the request id and the last the
  message; with 4 or 5 parts the third is the level, in lower case.
\<close>

definition extract_lambda_log_message :: "runtime \<Rightarrow> pydict \<Rightarrow> py_error + pydict" where
  "extract_lambda_log_message rt log =
     (case getitem log ''message'' of
        Inl e \<Rightarrow> Inl e
      | Inr m \<Rightarrow>
          (let str_message = py_str rt m;
               message_parts = py_split TAB str_message;
               size = length message_parts;
               log1 =
                 (if size = PYTHON_EVENT_SIZE \<or> size = NODEJS_EVENT_SIZE
                     \<or> size = LAMBDA_JS_EVENT_SIZE
                  then AList.update ''message'' (JStr (message_parts ! (size - 1)))
                         (AList.update ''requestID'' (JStr (message_parts ! 1))
                           (AList.update ''@timestamp'' (JStr (message_parts ! 0)) log))
                  else log);
               log2 =
                 (if size = NODEJS_EVENT_SIZE \<or> size = LAMBDA_JS_EVENT_SIZE
                  then AList.update ''log_level'' (JStr (str_lower rt (message_parts ! 2))) log1
                  else log1)
           in Inr log2))"


text \<open>
  \<^verbatim>\<open>_add_timestamp(log)\<close>: only a record without \<^verbatim>\<open>@timestamp\<close> is changed.
\<close>

definition add_timestamp :: "runtime \<Rightarrow> pydict \<Rightarrow> py_error + pydict" where
  "add_timestamp rt log =
     (if map_of log ''@timestamp'' = None
      then (case getitem log ''timestamp'' of
              Inl e \<Rightarrow> Inl e
            | Inr t \<Rightarrow>
                Inr (AList.delete ''timestamp''
                      (AList.update ''@timestamp'' (JStr (py_str rt t)) log)))
      else Inr log)"

text \<open>\<^verbatim>\<open>_add_level(log)\<close>.\<close>

definition add_level :: "pydict \<Rightarrow> py_error + pydict" where
  "add_level log =
     (if map_of log ''level'' = None
      then (case getitem log ''message'' of
              Inl e \<Rightarrow> Inl e
            | Inr message \<Rightarrow>
                (case py_in ''Task timed out after'' message of
                   Inl e \<Rightarrow> Inl e
                 | Inr timed_out \<Rightarrow>
                     Inr (if timed_out then AList.update ''level'' (JStr ''error'') log
                          else log)))
      else Inr log)"

text \<open>
  \<^verbatim>\<open>_parse_to_json(log)\<close>. \<open>parse_to_json_body\<close> is the body of the
  \<^verbatim>\<open>try\<close>; the handler swallows \<^verbatim>\<open>KeyError\<close> and \<^verbatim>\<open>ValueError\<close>. The body
  can raise these two only before it stores anything, so the handler leaves the
  record as it was.
\<close>

definition parse_to_json_body :: "runtime \<Rightarrow> pydict \<Rightarrow> py_error + pydict" where
  "parse_to_json_body rt log =
     (case getitem log ''message'' of
        Inl e \<Rightarrow> Inl e
      | Inr m \<Rightarrow>
     (case py_json_loads rt m of
        Inl e \<Rightarrow> Inl e
      | Inr json_object \<Rightarrow>
     (case environ rt ''FORMAT'' of
        None \<Rightarrow> Inl KeyError
      | Some fmt \<Rightarrow>
          if str_lower rt fmt = ''json''
          then (case py_items json_object of
                  Inl e \<Rightarrow> Inl e
                | Inr items \<Rightarrow> Inr (dict_update log items))
          else (case py_in ''level'' json_object of
                  Inl e \<Rightarrow> Inl e
                | Inr has_level \<Rightarrow>
                    if has_level
                    then (case py_subscript json_object ''level'' of
                            Inl e \<Rightarrow> Inl e
                          | Inr log_level \<Rightarrow>
                              (case py_lower rt log_level of
                                 Inl e \<Rightarrow> Inl e
                               | Inr l \<Rightarrow>
                                   Inr (if l \<in> set LOG_LEVELS
                                        then AList.update ''log_level'' log_level log
                                        else log)))
                    else Inr log))))"

definition parse_to_json :: "runtime \<Rightarrow> pydict \<Rightarrow> py_error + pydict" where
  "parse_to_json rt log =
     (case parse_to_json_body rt log of
        Inl e \<Rightarrow> (if e = KeyError \<or> e = ValueError then Inr log else Inl e)
      | Inr log' \<Rightarrow> Inr log')"

text \<open>
  \<^verbatim>\<open>_is_valid_log(log)\<close>. \<open>starts_any\<close> is the chain of \<^verbatim>\<open>or\<close> over the
  \<^verbatim>\<open>startswith\<close> tests, left to right.
\<close>

definition markers :: "string list" where
  "markers = [''START'', ''END'', ''REPORT'', ''INIT_START'']"

fun starts_any :: "jv \<Rightarrow> string list \<Rightarrow> py_error + bool" where
  "starts_any message [] = Inr False"
| "starts_any message (p # ps) =
     (case py_startswith message p of
        Inl e \<Rightarrow> Inl e
      | Inr b \<Rightarrow> if b then Inr True else starts_any message ps)"

definition is_valid_log :: "pydict \<Rightarrow> py_error + bool" where
  "is_valid_log log =
     (case getitem log ''message'' of
        Inl e \<Rightarrow> Inl e
      | Inr message \<Rightarrow>
          (case starts_any message markers of
             Inl e \<Rightarrow> Inl e
           | Inr is_info_log \<Rightarrow> Inr (\<not> is_info_log)))"

text \<open>
  The two tests of the ignore list in \<^verbatim>\<open>_parse_cloudwatch_log\<close>:
  \<^verbatim>\<open>key in log and log[key].lower() in LOG_LEVELS_IGNORE\<close>.
\<close>

definition level_ignored :: "runtime \<Rightarrow> pydict \<Rightarrow> string \<Rightarrow> py_error + bool" where
  "level_ignored rt log key =
     (case map_of log key of
        None \<Rightarrow> Inr False
      | Some v \<Rightarrow>
          (case py_lower rt v of
             Inl e \<Rightarrow> Inl e
           | Inr l \<Rightarrow> Inr (l \<in> set LOG_LEVELS_IGNORE)))"

text \<open>
  \<^verbatim>\<open>_parse_cloudwatch_log(log, additional_data)\<close> returns its boolean and the
  record as it has left it. \<open>merge_and_filter\<close> is the function from the merge of the
  metadata on.
\<close>

definition merge_and_filter :: "runtime \<Rightarrow> pydict \<Rightarrow> pydict \<Rightarrow> py_error + (bool \<times> pydict)" where
  "merge_and_filter rt log additional_data =
     (case parse_to_json rt (dict_update log additional_data) of
        Inl e \<Rightarrow> Inl e
      | Inr log' \<Rightarrow>
     (case level_ignored rt log' ''log_level'' of
        Inl e \<Rightarrow> Inl e
      | Inr ignore1 \<Rightarrow>
          if ignore1 then Inr (False, log')
          else (case level_ignored rt log' ''level'' of
                  Inl e \<Rightarrow> Inl e
                | Inr ignore2 \<Rightarrow>
                    if ignore2 then Inr (False, log') else Inr (True, log'))))"

definition parse_cloudwatch_log :: "runtime \<Rightarrow> pydict \<Rightarrow> pydict \<Rightarrow> py_error + (bool \<times> pydict)" where
  "parse_cloudwatch_log rt log additional_data =
     (case add_timestamp rt log of
        Inl e \<Rightarrow> Inl e
      | Inr log1 \<Rightarrow>
     (case add_level log1 of
        Inl e \<Rightarrow> Inl e
      | Inr log2 \<Rightarrow>
     (case getitem additional_data ''logGroup'' of
        Inl e \<Rightarrow> Inl e
      | Inr log_group \<Rightarrow>
     (case py_in LAMBDA_LOG_GROUP log_group of
        Inl e \<Rightarrow> Inl e
      | Inr is_lambda \<Rightarrow>
          if is_lambda
          then (case is_valid_log log2 of
                  Inl e \<Rightarrow> Inl e
                | Inr valid \<Rightarrow>
                    if valid
                    then (case extract_lambda_log_message rt log2 of
                            Inl e \<Rightarrow> Inl e
                          | Inr log3 \<Rightarrow> merge_and_filter rt log3 additional_data)
                    else Inr (False, log2))
          else merge_and_filter rt log2 additional_data))))"

section \<open>The context enricher\<close>

text \<open>
  \<^verbatim>\<open>_get_additional_logs_data(aws_logs_data, context)\<close>. \<open>copy_fields\<close> is the
  \<^verbatim>\<open>dict\<close> of the four fields; \<open>add_context\<close> is the first \<^verbatim>\<open>try\<close>, whose
  handler catches \<^verbatim>\<open>KeyError\<close> only and keeps what was stored before it;
  \<open>enrich\<close> is the loop over the pairs of \<^verbatim>\<open>ENRICH\<close>, where a pair without
  \<^verbatim>\<open>=\<close> has no second part.
\<close>

fun copy_fields :: "jv \<Rightarrow> string list \<Rightarrow> pydict \<Rightarrow> py_error + pydict" where
  "copy_fields aws_logs_data [] acc = Inr acc"
| "copy_fields aws_logs_data (key # keys) acc =
     (case py_subscript aws_logs_data key of
        Inl e \<Rightarrow> Inl e
      | Inr v \<Rightarrow> copy_fields aws_logs_data keys (AList.update key v acc))"

definition additional_fields :: "string list" where
  "additional_fields = [''logGroup'', ''logStream'', ''messageType'', ''owner'']"

definition add_context :: "pydict \<Rightarrow> lambda_context \<Rightarrow> py_error + pydict" where
  "add_context additional_data ctx =
     (case getattr ctx ''function_version'' of
        Inl e \<Rightarrow> (if e = KeyError then Inr additional_data else Inl e)
      | Inr version \<Rightarrow>
          (let d1 = AList.update ''function_version'' version additional_data
           in case getattr ctx ''invoked_function_arn'' of
                Inl e \<Rightarrow> (if e = KeyError then Inr d1 else Inl e)
              | Inr arn \<Rightarrow> Inr (AList.update ''invoked_function_arn'' arn d1)))"

fun enrich :: "string list \<Rightarrow> pydict \<Rightarrow> py_error + pydict" where
  "enrich [] additional_data = Inr additional_data"
| "enrich (property_to_enrich # rest) additional_data =
     (let property_key_value = py_split (CHR ''='') property_to_enrich
      in if VALUE_INDEX < length property_key_value
         then enrich rest
                (AList.update (property_key_value ! KEY_INDEX)
                   (JStr (property_key_value ! VALUE_INDEX)) additional_data)
         else Inl IndexError)"

definition add_enrich :: "runtime \<Rightarrow> pydict \<Rightarrow> py_error + pydict" where
  "add_enrich rt additional_data =
     (case environ rt ''ENRICH'' of
        None \<Rightarrow> Inr additional_data
      | Some spec \<Rightarrow>
          if spec \<noteq> [] then enrich (py_split (CHR '';'') spec) additional_data
          else Inr additional_data)"

definition add_type :: "runtime \<Rightarrow> pydict \<Rightarrow> pydict" where
  "add_type rt additional_data =
     (case environ rt ''TYPE'' of
        None \<Rightarrow> AList.update ''type'' (JStr ''logzio_cloudwatch_lambda'') additional_data
      | Some t \<Rightarrow> AList.update ''type'' (JStr t) additional_data)"

definition get_additional_logs_data :: "runtime \<Rightarrow> jv \<Rightarrow> lambda_context \<Rightarrow> py_error + pydict" where
  "get_additional_logs_data rt aws_logs_data ctx =
     (case copy_fields aws_logs_data additional_fields [] of
        Inl e \<Rightarrow> Inl e
      | Inr d0 \<Rightarrow>
     (case add_context d0 ctx of
        Inl e \<Rightarrow> Inl e
      | Inr d1 \<Rightarrow>
     (case add_enrich rt d1 of
        Inl e \<Rightarrow> Inl e
      | Inr d2 \<Rightarrow> Inr (add_type rt d2))))"

section \<open>The flattener\<close>

text \<open>
  \<^verbatim>\<open>is_simple_value(value)\<close>: \<^verbatim>\<open>str\<close>, \<^verbatim>\<open>int\<close>, \<^verbatim>\<open>float\<close> and
  \<^verbatim>\<open>bool\<close>; \<^verbatim>\<open>None\<close> is not among them.
\<close>

fun is_simple_value :: "jv \<Rightarrow> bool" where
  "is_simple_value (JStr _) = True"
| "is_simple_value (JInt _) = True"
| "is_simple_value (JFloat _) = True"
| "is_simple_value (JBool _) = True"
| "is_simple_value _ = False"

text \<open>
  \<^verbatim>\<open>flatten_object(obj)\<close>. \<open>promote\<close> is the inner loop over the items of
  \<^verbatim>\<open>data\<close>, \<open>flatten_items\<close> the outer loop with the dictionary built so far.
\<close>

fun promote :: "pydict \<Rightarrow> pydict \<Rightarrow> pydict" where
  "promote [] flattened = flattened"
| "promote ((k, v) # rest) flattened =
     promote rest (if is_simple_value v then AList.update k v flattened else flattened)"

fun flatten_items :: "runtime \<Rightarrow> pydict \<Rightarrow> pydict \<Rightarrow> py_error + pydict" where
  "flatten_items rt [] flattened = Inr flattened"
| "flatten_items rt ((key, value) # rest) flattened =
     (if is_simple_value value
      then flatten_items rt rest (AList.update key value flattened)
      else if key = ''data''
      then (case py_items value of
              Inl e \<Rightarrow> Inl e
            | Inr sub \<Rightarrow>
                flatten_items rt rest
                  (AList.update key (JStr (json_dumps rt value)) (promote sub flattened)))
      else flatten_items rt rest (AList.update key (JStr (json_dumps rt value)) flattened))"

definition flatten_object :: "runtime \<Rightarrow> pydict \<Rightarrow> py_error + pydict" where
  "flatten_object rt obj =
     (case flatten_items rt obj [] of
        Inl e \<Rightarrow> Inl e
      | Inr flattened \<Rightarrow> Inr (AList.update ''logVerstion'' (JStr ''v3'') flattened))"

section \<open>The handler\<close>

text \<open>
  The shipper is a sink: the model keeps the calls made on it, in order.
  \<open>process_log\<close> is the body of the loop of \<^verbatim>\<open>lambda_handler\<close> for one entry:
  \<open>Inr (Some r)\<close> is one call of \<^verbatim>\<open>add\<close> with \<open>r\<close>, \<open>Inr None\<close> no call.
  \<open>ship_logs\<close> is the loop; an exception leaves the calls made so far.
  \<open>lambda_handler\<close> returns the calls and the exception that ended it, if any.
\<close>

datatype shipper_call = Add pydict | Flush

definition process_log :: "runtime \<Rightarrow> pydict \<Rightarrow> jv \<Rightarrow> py_error + pydict option" where
  "process_log rt additional_data log =
     (case log of
        JObj d \<Rightarrow>
          (case parse_cloudwatch_log rt d additional_data of
             Inl e \<Rightarrow> Inl e
           | Inr (keep, d') \<Rightarrow>
               if keep
               then (case flatten_object rt d' of
                       Inl e \<Rightarrow> Inl e
                     | Inr flattened \<Rightarrow> Inr (Some flattened))
               else Inr None)
      | _ \<Rightarrow> Inl TypeError)"

fun ship_logs ::
  "runtime \<Rightarrow> pydict \<Rightarrow> jv list \<Rightarrow> shipper_call list \<Rightarrow> shipper_call list \<times> py_error option"
where
  "ship_logs rt additional_data [] shipper = (shipper, None)"
| "ship_logs rt additional_data (log # rest) shipper =
     (case process_log rt additional_data log of
        Inl e \<Rightarrow> (shipper, Some e)
      | Inr None \<Rightarrow> ship_logs rt additional_data rest shipper
      | Inr (Some flattened) \<Rightarrow>
          ship_logs rt additional_data rest (shipper @ [Add flattened]))"

definition log_events :: "jv \<Rightarrow> py_error + jv list" where
  "log_events aws_logs_data =
     (case py_subscript aws_logs_data ''logEvents'' of
        Inl e \<Rightarrow> Inl e
      | Inr events \<Rightarrow>
          (case py_len events of
             Inl e \<Rightarrow> Inl e
           | Inr _ \<Rightarrow> py_iter events))"

definition lambda_handler ::
  "runtime \<Rightarrow> jv \<Rightarrow> lambda_context \<Rightarrow> shipper_call list \<times> py_error option"
where
  "lambda_handler rt event ctx =
     (case extract_aws_logs_data rt event of
        Inl e \<Rightarrow> ([], Some e)
      | Inr aws_logs_data \<Rightarrow>
     (case get_additional_logs_data rt aws_logs_data ctx of
        Inl e \<Rightarrow> ([], Some e)
      | Inr additional_data \<Rightarrow>
     (case log_events aws_logs_data of
        Inl e \<Rightarrow> ([], Some e)
      | Inr logs \<Rightarrow>
          (case ship_logs rt additional_data logs [] of
             (shipper, Some e) \<Rightarrow> (shipper, Some e)
           | (shipper, None) \<Rightarrow> (shipper @ [Flush], None)))))"

section \<open>Sample inputs\<close>

text \<open>
  A runtime for the examples: tables that stand for the library functions on the few
  texts the examples use, and an empty environment. The texts of the examples are
  ASCII, where \<^verbatim>\<open>str.lower\<close> maps the letters A to Z and keeps every other
  character.
\<close>

definition ascii_lower_char :: "char \<Rightarrow> char" where
  "ascii_lower_char c =
     (case map_of (zip ''ABCDEFGHIJKLMNOPQRSTUVWXYZ'' ''abcdefghijklmnopqrstuvwxyz'') c of
        None \<Rightarrow> c
      | Some l \<Rightarrow> l)"

definition ascii_lower :: "string \<Rightarrow> string" where
  "ascii_lower s = map ascii_lower_char s"

definition sample_batch_text :: string where
  \<open>sample_batch_text =
     ''{"logGroup":"/aws/lambda/f","logStream":"s","messageType":"DATA_MESSAGE","owner":"1","logEvents":[{"timestamp":1,"message":"a"},{"timestamp":2,"message":"b"}]}''\<close>

definition sample_batch :: jv where
  "sample_batch =
     JObj [(''logGroup'', JStr ''/aws/lambda/f''), (''logStream'', JStr ''s''),
           (''messageType'', JStr ''DATA_MESSAGE''), (''owner'', JStr ''1''),
           (''logEvents'',
              JList [JObj [(''timestamp'', JInt 1), (''message'', JStr ''a'')],
                     JObj [(''timestamp'', JInt 2), (''message'', JStr ''b'')]])]"

definition sample_loads :: "string \<Rightarrow> py_error + jv" where
  \<open>sample_loads s =
     (case map_of
        [(''123'', JInt 123),
         (''{"code":500}'', JObj [(''code'', JInt 500)]),
         (''{"level":"error","code":500}'',
            JObj [(''level'', JStr ''error''), (''code'', JInt 500)]),
         (''{"level":"error"}'', JObj [(''level'', JStr ''error'')]),
         (''{"level":"verbose"}'', JObj [(''level'', JStr ''verbose'')]),
         (sample_batch_text, sample_batch)] s of
        Some j \<Rightarrow> Inr j
      | None \<Rightarrow> Inl ValueError)\<close>

definition sample_repr :: "jv \<Rightarrow> string" where
  "sample_repr v = (case v of JInt i \<Rightarrow> (if i = 1 then ''1'' else ''2'') | _ \<Rightarrow> ''None'')"

definition sample_dumps :: "jv \<Rightarrow> string" where
  \<open>sample_dumps v =
     (case map_of
        [(JObj [(''code'', JInt 1)], ''{"code": 1}''),
         (JObj [(''code'', JInt 1), (''nested'', JObj [])], ''{"code": 1, "nested": {}}'')] v of
        Some s \<Rightarrow> s
      | None \<Rightarrow> ''null'')\<close>

definition sample_nested_log :: pydict where
  "sample_nested_log =
     [(''message'', JStr ''a''),
      (''data'', JObj [(''code'', JInt 1), (''nested'', JObj [])]),
      (''@timestamp'', JStr ''1'')]"

definition sample_runtime :: runtime where
  "sample_runtime =
     \<lparr> environ = Map.empty,
       b64decode = map_of [(''QkFUQ0g='', ''BATCH'')],
       gzip_read = (\<lambda>s. if s = ''BATCH'' then Inr sample_batch_text else Inl OSError),
       json_loads = sample_loads,
       json_dumps = sample_dumps,
       py_repr = sample_repr,
       str_lower = ascii_lower \<rparr>"

definition sample_lambda_data :: pydict where
  "sample_lambda_data =
     [(''logGroup'', JStr ''/aws/lambda/f''), (''logStream'', JStr ''s''),
      (''messageType'', JStr ''DATA_MESSAGE''), (''owner'', JStr ''1''),
      (''type'', JStr ''logzio_cloudwatch_lambda'')]"


definition sample_info_log :: pydict where
  "sample_info_log = [(''timestamp'', JInt 1), (''message'', JStr ''a''), (''level'', JStr ''INFO'')]"


definition sample_corrupted_event :: jv where
  "sample_corrupted_event = JObj [(''awslogs'', JObj [(''data'', JStr ''abc'')])]"

definition sample_context :: lambda_context where
  "sample_context =
     [''function_version'' \<mapsto> JStr ''$LATEST'',
      ''invoked_function_arn'' \<mapsto> JStr ''arn:aws:lambda:us-east-1:1:function:f'']"



definition sample_start_log :: pydict where
  "sample_start_log = [(''timestamp'', JInt 1), (''message'', JStr ''START RequestId: 1 Version: $LATEST'')]"

section \<open>Properties of the normalizer\<close>


lemma dict_update_map_of:
  "map_of (dict_update d other) k =
     (case map_of (rev other) k of Some v \<Rightarrow> Some v | None \<Rightarrow> map_of d k)"
proof (induction other arbitrary: d)
  case Nil
  then show ?case by (simp add: dict_update_def)
next
  case (Cons kv other)
  have "dict_update d (kv # other) = dict_update (AList.update (fst kv) (snd kv) d) other"
    by (simp add: dict_update_def)
  with Cons.IH[of "AList.update (fst kv) (snd kv) d"] show ?case
    by (auto simp: update_conv' map_add_def split: option.splits)
qed


lemma starts_any_str: "starts_any (JStr m) ps = Inr (\<exists>p \<in> set ps. prefix p m)"
  by (induction ps) (auto simp: py_startswith_def)

lemma add_timestamp_message:
  "add_timestamp rt log = Inr log1 \<Longrightarrow> map_of log1 ''message'' = map_of log ''message''"
  by (auto simp: add_timestamp_def getitem_def delete_conv' update_conv'
      split: if_splits option.splits)

lemma add_timestamp_defined:
  "map_of log ''@timestamp'' \<noteq> None \<or> map_of log ''timestamp'' \<noteq> None
     \<Longrightarrow> \<exists>log1. add_timestamp rt log = Inr log1"
  by (auto simp: add_timestamp_def getitem_def)

lemma add_level_str:
  "map_of log ''message'' = Some (JStr m)
     \<Longrightarrow> \<exists>log2. add_level log = Inr log2 \<and> map_of log2 ''message'' = Some (JStr m)"
  by (auto simp: add_level_def getitem_def py_in_def update_conv')

lemma parse_to_json_not_json:
  "map_of log ''message'' = Some (JStr s) \<Longrightarrow> json_loads rt s = Inl ValueError
     \<Longrightarrow> parse_to_json rt log = Inr log"
  by (simp add: parse_to_json_def parse_to_json_body_def getitem_def py_json_loads_def)



lemma sample_group: "py_in LAMBDA_LOG_GROUP (JStr ''/aws/lambda/f'') = Inr True"
  by (simp add: py_in_def LAMBDA_LOG_GROUP_def sublist_Cons_right)





text \<open>
  C4, as stated, at a record that carries both \<^verbatim>\<open>@timestamp\<close> and
  \<^verbatim>\<open>timestamp\<close>: the guard \<^verbatim>\<open>'@timestamp' not in log\<close> is false, nothing is
  done, and the raw \<^verbatim>\<open>timestamp\<close> field stays in the record.
\<close>

theorem add_timestamp_keeps_timestamp:
  "add_timestamp sample_runtime
     [(''@timestamp'', JStr ''2024-01-01T00:00:00Z''), (''timestamp'', JInt 1), (''message'', JStr ''a'')]
   = Inr [(''@timestamp'', JStr ''2024-01-01T00:00:00Z''), (''timestamp'', JInt 1), (''message'', JStr ''a'')]"
  by (simp add: add_timestamp_def)

text \<open>
  C4, amended. A record without \<^verbatim>\<open>@timestamp\<close> that has a \<^verbatim>\<open>timestamp\<close> field
  leaves timestamp inference with \<^verbatim>\<open>@timestamp\<close> set to the text of that field and
  without the \<^verbatim>\<open>timestamp\<close> field; a record that already has \<^verbatim>\<open>@timestamp\<close> is
  left exactly as it is, so a \<^verbatim>\<open>timestamp\<close> field beside it stays.
\<close>

theorem add_timestamp_fields:
  "(map_of log ''@timestamp'' = None \<and> map_of log ''timestamp'' = Some t \<longrightarrow>
      (\<exists>log'. add_timestamp rt log = Inr log'
         \<and> map_of log' ''@timestamp'' = Some (JStr (py_str rt t))
         \<and> map_of log' ''timestamp'' = None))
   \<and> (map_of log ''@timestamp'' \<noteq> None \<longrightarrow> add_timestamp rt log = Inr log)"
  by (auto simp: add_timestamp_def getitem_def delete_conv' update_conv')

theorem add_timestamp_fields_witness:
  "(\<exists>log'. add_timestamp sample_runtime [(''timestamp'', JInt 1), (''message'', JStr ''a'')] = Inr log'
         \<and> map_of log' ''@timestamp'' = Some (JStr ''1'')
         \<and> map_of log' ''timestamp'' = None)
   \<and> add_timestamp sample_runtime [(''@timestamp'', JStr ''t''), (''timestamp'', JInt 1)]
       = Inr [(''@timestamp'', JStr ''t''), (''timestamp'', JInt 1)]"
  using add_timestamp_fields
      [of "[(''timestamp'', JInt 1), (''message'', JStr ''a'')]" "JInt 1" sample_runtime]
    add_timestamp_fields
      [of "[(''@timestamp'', JStr ''t''), (''timestamp'', JInt 1)]" "JInt 1" sample_runtime]
  by (simp add: py_str_def sample_runtime_def sample_repr_def)

text \<open>
  C10. Without \<^verbatim>\<open>FORMAT\<close> in the environment the expansion of embedded JSON
  has no effect on the record: whenever the step returns, it returns the record it
  was given; it does return, with that record, when the message is missing, when the
  message is a text that \<^verbatim>\<open>json.loads\<close> parses (whatever it parses to, a
  recognized level included) and when it is a text that \<^verbatim>\<open>json.loads\<close> rejects
  with \<^verbatim>\<open>ValueError\<close>; and the only errors that leave the step are those that
  \<^verbatim>\<open>json.loads\<close> itself raises on the message.
\<close>

theorem parse_to_json_without_FORMAT:
  assumes "environ rt ''FORMAT'' = None"
  shows "(\<forall>log'. parse_to_json rt log = Inr log' \<longrightarrow> log' = log)
       \<and> (map_of log ''message'' = None \<longrightarrow> parse_to_json rt log = Inr log)
       \<and> (\<forall>s j. map_of log ''message'' = Some (JStr s) \<and> json_loads rt s = Inr j \<longrightarrow>
             parse_to_json rt log = Inr log)
       \<and> (\<forall>s. map_of log ''message'' = Some (JStr s) \<and> json_loads rt s = Inl ValueError \<longrightarrow>
             parse_to_json rt log = Inr log)
       \<and> (\<forall>e. parse_to_json rt log = Inl e \<longrightarrow>
             (\<exists>m. map_of log ''message'' = Some m \<and> py_json_loads rt m = Inl e))"
  using assms
  by (auto simp: parse_to_json_def parse_to_json_body_def getitem_def py_json_loads_def
      split: option.splits jv.splits sum.splits if_splits)

text \<open>
  The message \<^verbatim>\<open>{"level":"error"}\<close> parses, its level is in the vocabulary, and
  the record is unchanged.
\<close>

theorem parse_to_json_without_FORMAT_witness:
  \<open>environ sample_runtime ''FORMAT'' = None
   \<and> json_loads sample_runtime ''{"level":"error"}'' = Inr (JObj [(''level'', JStr ''error'')])
   \<and> ''error'' \<in> set LOG_LEVELS
   \<and> parse_to_json sample_runtime [(''message'', JStr ''{"level":"error"}'')]
       = Inr [(''message'', JStr ''{"level":"error"}'')]\<close>
proof -
  have e: "environ sample_runtime ''FORMAT'' = None"
    by (simp add: sample_runtime_def)
  have j: \<open>json_loads sample_runtime ''{"level":"error"}''
             = Inr (JObj [(''level'', JStr ''error'')])\<close>
    by (simp add: sample_runtime_def sample_loads_def)
  have l: "''error'' \<in> set LOG_LEVELS"
    by (simp add: LOG_LEVELS_def)
  from parse_to_json_without_FORMAT
      [OF e, of \<open>[(''message'', JStr ''{"level":"error"}'')]\<close>] j
  have \<open>parse_to_json sample_runtime [(''message'', JStr ''{"level":"error"}'')]
          = Inr [(''message'', JStr ''{"level":"error"}'')]\<close>
    by simp
  with e j l show ?thesis by simp
qed

text \<open>
  C6, as stated, in the structured mode (\<^verbatim>\<open>FORMAT=json\<close>): the message
  \<^verbatim>\<open>{"code":500}\<close> parses as JSON and has no level, yet the step is not a no-op,
  since every key of the parsed object is merged into the record.
\<close>

theorem parse_to_json_structured_merges:
  \<open>parse_to_json (sample_runtime\<lparr>environ := [''FORMAT'' \<mapsto> ''json'']\<rparr>)
      [(''message'', JStr ''{"code":500}'')]
    = Inr [(''message'', JStr ''{"code":500}''), (''code'', JInt 500)]\<close>
  by code_simp

text \<open>
  C6, amended. For a record whose message is a text: when \<^verbatim>\<open>json.loads\<close> rejects
  the text as not JSON (a \<^verbatim>\<open>ValueError\<close>), the step returns the record unchanged,
  in every mode; when the structured mode is not on (\<^verbatim>\<open>FORMAT\<close> is missing or is
  not \<^verbatim>\<open>json\<close>) and the text parses to a JSON object that has no \<^verbatim>\<open>level\<close> key,
  or whose \<^verbatim>\<open>level\<close> is a text outside the vocabulary, the step returns the record
  unchanged as well; no error is raised in either case. In the structured mode, when
  the text parses to a JSON object, the step returns the record with every key of the
  object set to the value the object gives it (the last one, should a key be
  repeated) and every other field as it was, whether the object has a level or not.
\<close>

theorem parse_to_json_modes:
  assumes "map_of log ''message'' = Some (JStr s)"
  shows "(json_loads rt s = Inl ValueError \<longrightarrow> parse_to_json rt log = Inr log)
       \<and> (json_loads rt s = Inr (JObj items)
            \<and> (\<forall>fmt. environ rt ''FORMAT'' = Some fmt \<longrightarrow> str_lower rt fmt \<noteq> ''json'')
            \<and> (map_of items ''level'' = None
                 \<or> (\<exists>l. map_of items ''level'' = Some (JStr l)
                        \<and> str_lower rt l \<notin> set LOG_LEVELS))
           \<longrightarrow> parse_to_json rt log = Inr log)
       \<and> (json_loads rt s = Inr (JObj items)
            \<and> (\<exists>fmt. environ rt ''FORMAT'' = Some fmt \<and> str_lower rt fmt = ''json'')
           \<longrightarrow> (\<exists>log'. parse_to_json rt log = Inr log'
                  \<and> (\<forall>k. map_of log' k =
                        (case map_of (rev items) k of
                           Some v \<Rightarrow> Some v
                         | None \<Rightarrow> map_of log k))))"
proof -
  have a: "parse_to_json rt log = Inr log" if "json_loads rt s = Inl ValueError"
    using assms that by (rule parse_to_json_not_json)
  have b: "parse_to_json rt log = Inr log"
    if "json_loads rt s = Inr (JObj items)"
      "\<forall>fmt. environ rt ''FORMAT'' = Some fmt \<longrightarrow> str_lower rt fmt \<noteq> ''json''"
      "map_of items ''level'' = None
         \<or> (\<exists>l. map_of items ''level'' = Some (JStr l) \<and> str_lower rt l \<notin> set LOG_LEVELS)"
    using assms that
    by (auto simp: parse_to_json_def parse_to_json_body_def getitem_def py_json_loads_def
        py_in_def py_subscript_def py_lower_def split: option.splits)
  have c: "\<exists>log'. parse_to_json rt log = Inr log'
                  \<and> (\<forall>k. map_of log' k =
                        (case map_of (rev items) k of
                           Some v \<Rightarrow> Some v
                         | None \<Rightarrow> map_of log k))"
    if "json_loads rt s = Inr (JObj items)"
      "\<exists>fmt. environ rt ''FORMAT'' = Some fmt \<and> str_lower rt fmt = ''json''"
  proof -
    from assms that have "parse_to_json rt log = Inr (dict_update log items)"
      by (auto simp: parse_to_json_def parse_to_json_body_def getitem_def py_json_loads_def
          py_items_def)
    then show ?thesis by (simp add: dict_update_map_of)
  qed
  from a b c show ?thesis by blast
qed

theorem parse_to_json_modes_witness:
  \<open>parse_to_json (sample_runtime\<lparr>environ := [''FORMAT'' \<mapsto> ''text'']\<rparr>)
      [(''message'', JStr ''plain text'')] = Inr [(''message'', JStr ''plain text'')]
   \<and> parse_to_json (sample_runtime\<lparr>environ := [''FORMAT'' \<mapsto> ''text'']\<rparr>)
      [(''message'', JStr ''{"level":"verbose"}'')] = Inr [(''message'', JStr ''{"level":"verbose"}'')]
   \<and> parse_to_json (sample_runtime\<lparr>environ := [''FORMAT'' \<mapsto> ''text'']\<rparr>)
      [(''message'', JStr ''{"code":500}'')] = Inr [(''message'', JStr ''{"code":500}'')]
   \<and> (\<exists>log'. parse_to_json (sample_runtime\<lparr>environ := [''FORMAT'' \<mapsto> ''json'']\<rparr>)
                [(''message'', JStr ''{"level":"error","code":500}'')] = Inr log'
         \<and> map_of log' ''level'' = Some (JStr ''error'')
         \<and> map_of log' ''code'' = Some (JInt 500)
         \<and> map_of log' ''message'' = Some (JStr ''{"level":"error","code":500}''))\<close>
proof -
  let ?rt = \<open>sample_runtime\<lparr>environ := [''FORMAT'' \<mapsto> ''text'']\<rparr>\<close>
  let ?rj = \<open>sample_runtime\<lparr>environ := [''FORMAT'' \<mapsto> ''json'']\<rparr>\<close>
  have fmt: "str_lower ?rt ''text'' \<noteq> ''json''"
    by (simp add: sample_runtime_def ascii_lower_def ascii_lower_char_def)
  have fmj: "str_lower ?rj ''json'' = ''json''"
    by (simp add: sample_runtime_def ascii_lower_def ascii_lower_char_def)
  have lvl: "str_lower ?rt ''verbose'' \<notin> set LOG_LEVELS"
    by (simp add: sample_runtime_def ascii_lower_def ascii_lower_char_def LOG_LEVELS_def)
  have a: \<open>parse_to_json ?rt [(''message'', JStr ''plain text'')]
             = Inr [(''message'', JStr ''plain text'')]\<close>
    using parse_to_json_modes
      [of \<open>[(''message'', JStr ''plain text'')]\<close> \<open>''plain text''\<close> ?rt \<open>[]\<close>]
    by (simp add: sample_runtime_def sample_loads_def sample_batch_text_def)
  have b: \<open>parse_to_json ?rt [(''message'', JStr ''{"level":"verbose"}'')]
             = Inr [(''message'', JStr ''{"level":"verbose"}'')]\<close>
    using parse_to_json_modes
      [of \<open>[(''message'', JStr ''{"level":"verbose"}'')]\<close> \<open>''{"level":"verbose"}''\<close>
          ?rt \<open>[(''level'', JStr ''verbose'')]\<close>] fmt lvl
    by (simp add: sample_runtime_def sample_loads_def sample_batch_text_def)
  have c: \<open>parse_to_json ?rt [(''message'', JStr ''{"code":500}'')]
             = Inr [(''message'', JStr ''{"code":500}'')]\<close>
    using parse_to_json_modes
      [of \<open>[(''message'', JStr ''{"code":500}'')]\<close> \<open>''{"code":500}''\<close>
          ?rt \<open>[(''code'', JInt 500)]\<close>] fmt
    by (simp add: sample_runtime_def sample_loads_def sample_batch_text_def)
  have d: \<open>\<exists>log'. parse_to_json ?rj [(''message'', JStr ''{"level":"error","code":500}'')] = Inr log'
         \<and> map_of log' ''level'' = Some (JStr ''error'')
         \<and> map_of log' ''code'' = Some (JInt 500)
         \<and> map_of log' ''message'' = Some (JStr ''{"level":"error","code":500}'')\<close>
    using parse_to_json_modes
      [of \<open>[(''message'', JStr ''{"level":"error","code":500}'')]\<close>
          \<open>''{"level":"error","code":500}''\<close>
          ?rj \<open>[(''level'', JStr ''error''), (''code'', JInt 500)]\<close>] fmj
    by (auto simp: sample_runtime_def sample_loads_def sample_batch_text_def)
  from a b c d show ?thesis by blast
qed

text \<open>
  Outside the amended claim: an exception of \<^verbatim>\<open>json.loads\<close> that is neither a
  \<^verbatim>\<open>ValueError\<close> nor a \<^verbatim>\<open>KeyError\<close> (the \<^verbatim>\<open>RecursionError\<close> of a text nested
  too deep) leaves the step, and so does the error of a message that parses to JSON
  that is not an object: the text \<^verbatim>\<open>123\<close> makes the test
  \<^verbatim>\<open>'level' in json_object\<close> raise \<^verbatim>\<open>TypeError\<close>, and
  \<^verbatim>\<open>json_object.items()\<close> raise \<^verbatim>\<open>AttributeError\<close> in the structured mode.
\<close>

lemma parse_to_json_loads_error:
  "map_of log ''message'' = Some (JStr s) \<Longrightarrow> json_loads rt s = Inl e
     \<Longrightarrow> e \<noteq> KeyError \<Longrightarrow> e \<noteq> ValueError \<Longrightarrow> parse_to_json rt log = Inl e"
  by (simp add: parse_to_json_def parse_to_json_body_def getitem_def py_json_loads_def)

lemma parse_to_json_number_raises:
  \<open>parse_to_json (sample_runtime\<lparr>environ := [''FORMAT'' \<mapsto> ''text'']\<rparr>)
      [(''message'', JStr ''123'')] = Inl TypeError
   \<and> parse_to_json (sample_runtime\<lparr>environ := [''FORMAT'' \<mapsto> ''json'']\<rparr>)
      [(''message'', JStr ''123'')] = Inl AttributeError\<close>
  by code_simp

subsection \<open>The noise filter\<close>

lemma merge_and_filter_keep:
  assumes "merge_and_filter rt log ad = Inr (True, log')"
  shows "level_ignored rt log' ''log_level'' = Inr False
       \<and> level_ignored rt log' ''level'' = Inr False"
  using assms
  by (auto simp: merge_and_filter_def split: sum.splits if_splits)

lemma parse_cloudwatch_log_keep:
  assumes "parse_cloudwatch_log rt log ad = Inr (True, log')"
  shows "level_ignored rt log' ''log_level'' = Inr False
       \<and> level_ignored rt log' ''level'' = Inr False"
  using assms merge_and_filter_keep
  by (auto simp: parse_cloudwatch_log_def split: sum.splits if_splits)

lemma level_ignored_str:
  "map_of log key = Some (JStr s) \<Longrightarrow>
     level_ignored rt log key = Inr (str_lower rt s \<in> set LOG_LEVELS_IGNORE)"
  by (simp add: level_ignored_def py_lower_def)

text \<open>
  C2. A record whose final \<^verbatim>\<open>log_level\<close> or final \<^verbatim>\<open>level\<close>, in lower case, is
  in the ignore list (\<^verbatim>\<open>info\<close> alone) is not kept: the normalizer returns false for
  it, the body of the loop makes no \<^verbatim>\<open>add\<close> call, so the record is not flattened,
  and the loop goes on with the shipper as it was.
\<close>

theorem ignored_level_dropped:
  assumes "parse_cloudwatch_log rt log ad = Inr (keep, log')"
    and "(\<exists>s. map_of log' ''log_level'' = Some (JStr s)
              \<and> str_lower rt s \<in> set LOG_LEVELS_IGNORE)
       \<or> (\<exists>s. map_of log' ''level'' = Some (JStr s)
              \<and> str_lower rt s \<in> set LOG_LEVELS_IGNORE)"
  shows "\<not> keep \<and> process_log rt ad (JObj log) = Inr None
       \<and> ship_logs rt ad (JObj log # rest) shipper = ship_logs rt ad rest shipper"
proof -
  have "\<not> keep"
  proof
    assume keep
    with assms(1) have "parse_cloudwatch_log rt log ad = Inr (True, log')" by simp
    from parse_cloudwatch_log_keep[OF this] assms(2) show False
      by (auto simp: level_ignored_str)
  qed
  with assms(1) show ?thesis
    by (simp add: process_log_def)
qed

lemma sample_info_run: "parse_cloudwatch_log sample_runtime sample_info_log sample_lambda_data
     = Inr (False, [(''message'', JStr ''a''), (''level'', JStr ''INFO''), (''@timestamp'', JStr ''1''),
          (''logGroup'', JStr ''/aws/lambda/f''), (''logStream'', JStr ''s''),
          (''messageType'', JStr ''DATA_MESSAGE''), (''owner'', JStr ''1''),
          (''type'', JStr ''logzio_cloudwatch_lambda'')])"
  by code_simp

theorem ignored_level_dropped_witness:
  "parse_cloudwatch_log sample_runtime sample_info_log sample_lambda_data
     = Inr (False, [(''message'', JStr ''a''), (''level'', JStr ''INFO''), (''@timestamp'', JStr ''1''),
          (''logGroup'', JStr ''/aws/lambda/f''), (''logStream'', JStr ''s''),
          (''messageType'', JStr ''DATA_MESSAGE''), (''owner'', JStr ''1''),
          (''type'', JStr ''logzio_cloudwatch_lambda'')])
   \<and> str_lower sample_runtime ''INFO'' \<in> set LOG_LEVELS_IGNORE
   \<and> process_log sample_runtime sample_lambda_data (JObj sample_info_log) = Inr None
   \<and> ship_logs sample_runtime sample_lambda_data [JObj sample_info_log] [] = ([], None)"
proof -
  have low: "str_lower sample_runtime ''INFO'' \<in> set LOG_LEVELS_IGNORE"
    by (simp add: sample_runtime_def ascii_lower_def ascii_lower_char_def LOG_LEVELS_IGNORE_def)
  from ignored_level_dropped [OF sample_info_run, of "[]" "[]"] low sample_info_run
  show ?thesis by simp
qed

text \<open>
  C3. Under a managed-function log group (the group contains \<^verbatim>\<open>/aws/lambda/\<close>), a
  record whose message is a text that starts with \<^verbatim>\<open>START\<close>, \<^verbatim>\<open>END\<close>,
  \<^verbatim>\<open>REPORT\<close> or \<^verbatim>\<open>INIT_START\<close> is never kept and never gives an \<^verbatim>\<open>add\<close>
  call, whatever its other fields are. With one of the two timestamp fields present
  the normalizer returns false with the record as timestamp and level inference left
  it: the metadata is not merged and the message is not parsed.
\<close>

theorem housekeeping_dropped:
  assumes "map_of ad ''logGroup'' = Some g"
    and "py_in LAMBDA_LOG_GROUP g = Inr True"
    and "map_of log ''message'' = Some (JStr m)"
    and "\<exists>p \<in> set markers. prefix p m"
  shows "(\<forall>l. parse_cloudwatch_log rt log ad \<noteq> Inr (True, l))
       \<and> (\<forall>r. process_log rt ad (JObj log) \<noteq> Inr (Some r))
       \<and> (map_of log ''@timestamp'' \<noteq> None \<or> map_of log ''timestamp'' \<noteq> None \<longrightarrow>
            (\<exists>log1 log2. add_timestamp rt log = Inr log1 \<and> add_level log1 = Inr log2
               \<and> parse_cloudwatch_log rt log ad = Inr (False, log2)
               \<and> process_log rt ad (JObj log) = Inr None
               \<and> ship_logs rt ad (JObj log # rest) shipper = ship_logs rt ad rest shipper))"
proof -
  have drop: "parse_cloudwatch_log rt log ad = Inr (False, log2)"
    if "add_timestamp rt log = Inr log1" "add_level log1 = Inr log2" for log1 log2
  proof -
    from that(1) assms(3) have "map_of log1 ''message'' = Some (JStr m)"
      by (simp add: add_timestamp_message)
    with add_level_str[of log1 m] that(2) have "map_of log2 ''message'' = Some (JStr m)"
      by auto
    with assms(4) have "is_valid_log log2 = Inr False"
      by (simp add: is_valid_log_def getitem_def starts_any_str)
    with that assms(1,2) show ?thesis
      by (simp add: parse_cloudwatch_log_def getitem_def)
  qed
  have never: "parse_cloudwatch_log rt log ad \<noteq> Inr (True, l)" for l
  proof (cases "add_timestamp rt log")
    case (Inl e)
    then show ?thesis by (simp add: parse_cloudwatch_log_def)
  next
    case (Inr log1)
    with assms(3) have "map_of log1 ''message'' = Some (JStr m)"
      by (simp add: add_timestamp_message)
    from add_level_str[OF this] obtain log2 where "add_level log1 = Inr log2" by blast
    from drop[OF Inr this] show ?thesis by simp
  qed
  have c1: "\<forall>l. parse_cloudwatch_log rt log ad \<noteq> Inr (True, l)"
    using never by blast
  have c2: "\<forall>r. process_log rt ad (JObj log) \<noteq> Inr (Some r)"
    using never by (auto simp: process_log_def split: sum.splits if_splits)
  have c3: "\<exists>log1 log2. add_timestamp rt log = Inr log1 \<and> add_level log1 = Inr log2
               \<and> parse_cloudwatch_log rt log ad = Inr (False, log2)
               \<and> process_log rt ad (JObj log) = Inr None
               \<and> ship_logs rt ad (JObj log # rest) shipper = ship_logs rt ad rest shipper"
    if "map_of log ''@timestamp'' \<noteq> None \<or> map_of log ''timestamp'' \<noteq> None"
  proof -
    from add_timestamp_defined[OF that] obtain log1 where l1: "add_timestamp rt log = Inr log1"
      by blast
    with assms(3) have "map_of log1 ''message'' = Some (JStr m)"
      by (simp add: add_timestamp_message)
    from add_level_str[OF this] obtain log2 where l2: "add_level log1 = Inr log2" by blast
    from drop[OF l1 l2] l1 l2 show ?thesis
      by (simp add: process_log_def)
  qed
  from c1 c2 c3 show ?thesis by blast
qed

lemma sample_start_prefix: "\<exists>p \<in> set markers. prefix p ''START RequestId: 1 Version: $LATEST''"
  by (simp add: markers_def)

theorem housekeeping_dropped_witness:
  "map_of sample_lambda_data ''logGroup'' = Some (JStr ''/aws/lambda/f'')
   \<and> py_in LAMBDA_LOG_GROUP (JStr ''/aws/lambda/f'') = Inr True
   \<and> prefix ''START'' ''START RequestId: 1 Version: $LATEST''
   \<and> parse_cloudwatch_log sample_runtime sample_start_log sample_lambda_data
       = Inr (False, [(''message'', JStr ''START RequestId: 1 Version: $LATEST''),
                      (''@timestamp'', JStr ''1'')])
   \<and> process_log sample_runtime sample_lambda_data (JObj sample_start_log) = Inr None"
proof -
  have g: "map_of sample_lambda_data ''logGroup'' = Some (JStr ''/aws/lambda/f'')"
    by (simp add: sample_lambda_data_def)
  have m: "map_of sample_start_log ''message'' = Some (JStr ''START RequestId: 1 Version: $LATEST'')"
    by (simp add: sample_start_log_def)
  have t: "add_timestamp sample_runtime sample_start_log
             = Inr [(''message'', JStr ''START RequestId: 1 Version: $LATEST''),
                    (''@timestamp'', JStr ''1'')]"
    by code_simp
  have l: "add_level [(''message'', JStr ''START RequestId: 1 Version: $LATEST''),
                      (''@timestamp'', JStr ''1'')]
             = Inr [(''message'', JStr ''START RequestId: 1 Version: $LATEST''),
                    (''@timestamp'', JStr ''1'')]"
    by code_simp
  from housekeeping_dropped [OF g sample_group m sample_start_prefix,
      of sample_runtime "[]" "[]"] t l g sample_group
  show ?thesis by (auto simp: sample_start_log_def)
qed

section \<open>Properties of the decoder\<close>

text \<open>
  C8. When the payload of the envelope fails base64 decoding, decompression or JSON
  parsing, the decoder raises, and the handler ends with that error before any call
  on the shipper: no \<^verbatim>\<open>add\<close> and no \<^verbatim>\<open>flush\<close>. A failure of base64 decoding
  is raised as \<^verbatim>\<open>ValueError\<close>; a failure of decompression or of JSON parsing is
  raised with the error of the library (\<^verbatim>\<open>ValueError\<close> for a text that is not
  JSON).
\<close>

theorem decode_failure_aborts:
  assumes "py_subscript event ''awslogs'' = Inr awslogs"
    and "py_subscript awslogs ''data'' = Inr (JStr s)"
    and "b64decode rt s = None
       \<or> (\<exists>d e. b64decode rt s = Some d \<and> gzip_read rt d = Inl e)
       \<or> (\<exists>d u e. b64decode rt s = Some d \<and> gzip_read rt d = Inr u \<and> json_loads rt u = Inl e)"
  shows "\<exists>e. extract_aws_logs_data rt event = Inl e
           \<and> lambda_handler rt event ctx = ([], Some e)
           \<and> (b64decode rt s = None \<longrightarrow> e = ValueError)
           \<and> (\<forall>d. b64decode rt s = Some d \<longrightarrow> gzip_read rt d = Inl e
                   \<or> (\<exists>u. gzip_read rt d = Inr u \<and> json_loads rt u = Inl e))"
  using assms
  by (auto simp: extract_aws_logs_data_def decode_body_def lambda_handler_def
      split: option.splits sum.splits)

text \<open>The text \<^verbatim>\<open>abc\<close> is not base64: its padding is wrong.\<close>

theorem decode_failure_aborts_witness:
  "b64decode sample_runtime ''abc'' = None
   \<and> extract_aws_logs_data sample_runtime sample_corrupted_event = Inl ValueError
   \<and> lambda_handler sample_runtime sample_corrupted_event sample_context = ([], Some ValueError)"
  using decode_failure_aborts
    [of sample_corrupted_event "JObj [(''data'', JStr ''abc'')]" "''abc''" sample_runtime
        sample_context]
  by (auto simp: sample_corrupted_event_def py_subscript_def getitem_def sample_runtime_def)

section \<open>Properties of the flattener\<close>

lemma promote_map_of:
  "distinct (map fst sub) \<Longrightarrow>
     map_of (promote sub flattened) k =
       (case map_of sub k of
          Some v \<Rightarrow> if is_simple_value v then Some v else map_of flattened k
        | None \<Rightarrow> map_of flattened k)"
proof (induction sub arbitrary: flattened)
  case Nil
  then show ?case by simp
next
  case (Cons kv sub)
  obtain k' v' where kv: "kv = (k', v')" by (cases kv)
  from Cons.prems kv have d: "distinct (map fst sub)" and n: "k' \<notin> fst ` set sub" by auto
  from n have none: "map_of sub k' = None" by (simp add: map_of_eq_None_iff)
  show ?case
    using Cons.IH[OF d] kv none
    by (auto simp: update_conv' split: option.splits)
qed

lemma flatten_items_append:
  "flatten_items rt (xs @ ys) flattened =
     (case flatten_items rt xs flattened of
        Inl e \<Rightarrow> Inl e
      | Inr flattened' \<Rightarrow> flatten_items rt ys flattened')"
  by (induction rt xs flattened rule: flatten_items.induct) (auto split: sum.splits)

lemma flatten_items_no_data:
  "''data'' \<notin> fst ` set xs \<Longrightarrow>
     \<exists>flattened'. flatten_items rt xs flattened = Inr flattened'
        \<and> (\<forall>k. k \<notin> fst ` set xs \<longrightarrow> map_of flattened' k = map_of flattened k)
        \<and> (\<forall>k. map_of flattened k \<noteq> None \<longrightarrow> map_of flattened' k \<noteq> None)"
proof (induction xs arbitrary: flattened)
  case Nil
  then show ?case by simp
next
  case (Cons kv xs)
  obtain key val where kv: "kv = (key, val)" by (cases kv)
  from Cons.prems kv have nd: "''data'' \<notin> fst ` set xs" and key: "key \<noteq> ''data''" by auto
  let ?f = "AList.update key (if is_simple_value val then val else JStr (json_dumps rt val)) flattened"
  from Cons.IH[OF nd, of ?f] obtain flattened' where
    r: "flatten_items rt xs ?f = Inr flattened'"
    and same: "\<forall>k. k \<notin> fst ` set xs \<longrightarrow> map_of flattened' k = map_of ?f k"
    and mono: "\<forall>k. map_of ?f k \<noteq> None \<longrightarrow> map_of flattened' k \<noteq> None"
    by blast
  have step: "flatten_items rt (kv # xs) flattened = flatten_items rt xs ?f"
    using kv key by simp
  show ?case
  proof (intro exI[of _ flattened'] conjI allI impI)
    show "flatten_items rt (kv # xs) flattened = Inr flattened'" using step r by simp
  next
    fix k assume "k \<notin> fst ` set (kv # xs)"
    with kv same show "map_of flattened' k = map_of flattened k"
      by (auto simp: update_conv')
  next
    fix k assume "map_of flattened k \<noteq> None"
    then have "map_of ?f k \<noteq> None" by (simp add: update_conv')
    with mono show "map_of flattened' k \<noteq> None" by blast
  qed
qed

text \<open>
  C9, as stated, at the record \<^verbatim>\<open>{"data": {"code": 1}, "code": 2}\<close>: the
  sub-field \<^verbatim>\<open>code\<close> of \<^verbatim>\<open>data\<close> is primitive and is written to the top level,
  but the field \<^verbatim>\<open>code\<close> of the record comes after \<^verbatim>\<open>data\<close> and is written
  over it, so the output does not hold the sub-field under its key.
\<close>

theorem flatten_object_later_field_wins:
  \<open>flatten_object sample_runtime [(''data'', JObj [(''code'', JInt 1)]), (''code'', JInt 2)]
     = Inr [(''code'', JInt 2), (''data'', JStr ''{"code": 1}''), (''logVerstion'', JStr ''v3'')]\<close>
  by code_simp

text \<open>
  C9, amended. For a record (with distinct keys) whose field \<^verbatim>\<open>data\<close> is a
  dictionary (with distinct keys), flattening succeeds; the output holds the whole
  value of \<^verbatim>\<open>data\<close> as its JSON text under \<^verbatim>\<open>data\<close> and the version marker
  \<^verbatim>\<open>logVerstion = v3\<close>; every primitive sub-field of \<^verbatim>\<open>data\<close> has its key in
  the output, with the value of the sub-field unless the key is \<^verbatim>\<open>data\<close>,
  \<^verbatim>\<open>logVerstion\<close> or the key of a field that comes after \<^verbatim>\<open>data\<close> in the record
  (the later store wins); a composite sub-field is not promoted: its key is not in the
  output unless it is \<^verbatim>\<open>logVerstion\<close> or a key of the record.
\<close>

theorem flatten_object_data:
  assumes "obj = pre @ (''data'', JObj sub) # post"
    and "distinct (map fst obj)"
    and "distinct (map fst sub)"
  shows "\<exists>flat. flatten_object rt obj = Inr flat
           \<and> map_of flat ''data'' = Some (JStr (json_dumps rt (JObj sub)))
           \<and> map_of flat ''logVerstion'' = Some (JStr ''v3'')
           \<and> (\<forall>k v. map_of sub k = Some v \<and> is_simple_value v \<longrightarrow> map_of flat k \<noteq> None)
           \<and> (\<forall>k v. map_of sub k = Some v \<and> is_simple_value v \<and> k \<noteq> ''data''
                   \<and> k \<noteq> ''logVerstion'' \<and> k \<notin> fst ` set post \<longrightarrow>
                 map_of flat k = Some v)
           \<and> (\<forall>k v. map_of sub k = Some v \<and> \<not> is_simple_value v \<and> k \<noteq> ''logVerstion''
                   \<and> k \<notin> fst ` set obj \<longrightarrow>
                 map_of flat k = None)"
proof -
  from assms(1,2) have npre: "''data'' \<notin> fst ` set pre" and npost: "''data'' \<notin> fst ` set post"
    by auto
  from flatten_items_no_data[OF npre, of rt "[]"] obtain f1 where
    f1: "flatten_items rt pre [] = Inr f1"
    and f1_same: "\<forall>k. k \<notin> fst ` set pre \<longrightarrow> map_of f1 k = None"
    by auto
  let ?f2 = "AList.update ''data'' (JStr (json_dumps rt (JObj sub))) (promote sub f1)"
  from flatten_items_no_data[OF npost, of rt ?f2] obtain f3 where
    f3: "flatten_items rt post ?f2 = Inr f3"
    and f3_same: "\<forall>k. k \<notin> fst ` set post \<longrightarrow> map_of f3 k = map_of ?f2 k"
    and f3_mono: "\<forall>k. map_of ?f2 k \<noteq> None \<longrightarrow> map_of f3 k \<noteq> None"
    by blast
  let ?flat = "AList.update ''logVerstion'' (JStr ''v3'') f3"
  have items: "flatten_items rt obj [] = Inr f3"
    using assms(1) f1 f3 by (simp add: flatten_items_append py_items_def)
  then have r: "flatten_object rt obj = Inr ?flat"
    by (simp add: flatten_object_def)
  have pm: "map_of (promote sub f1) k =
       (case map_of sub k of
          Some v \<Rightarrow> if is_simple_value v then Some v else map_of f1 k
        | None \<Rightarrow> map_of f1 k)" for k
    by (rule promote_map_of[OF assms(3)])
  have a: "map_of ?flat ''data'' = Some (JStr (json_dumps rt (JObj sub)))"
    using npost f3_same by (simp add: update_conv')
  have b: "map_of ?flat ''logVerstion'' = Some (JStr ''v3'')"
    by (simp add: update_conv')
  have c: "map_of ?flat k \<noteq> None" if "map_of sub k = Some v" "is_simple_value v" for k v
  proof -
    from that have "map_of ?f2 k \<noteq> None" by (simp add: update_conv' pm)
    with f3_mono have "map_of f3 k \<noteq> None" by blast
    then show ?thesis by (simp add: update_conv')
  qed
  have d: "map_of ?flat k = Some v"
    if "map_of sub k = Some v" "is_simple_value v" "k \<noteq> ''data''" "k \<noteq> ''logVerstion''"
      "k \<notin> fst ` set post" for k v
    using that f3_same by (simp add: update_conv' pm)
  have e: "map_of ?flat k = None"
    if "map_of sub k = Some v" "\<not> is_simple_value v" "k \<noteq> ''logVerstion''"
      "k \<notin> fst ` set obj" for k v
  proof -
    from that(4) assms(1) have "k \<notin> fst ` set pre" "k \<notin> fst ` set post" "k \<noteq> ''data''"
      by auto
    with that f3_same f1_same show ?thesis by (simp add: update_conv' pm)
  qed
  from r a b c d e show ?thesis by blast
qed

theorem flatten_object_data_witness:
  \<open>\<exists>flat. flatten_object sample_runtime sample_nested_log = Inr flat
      \<and> map_of flat ''data'' = Some (JStr ''{"code": 1, "nested": {}}'')
      \<and> map_of flat ''logVerstion'' = Some (JStr ''v3'')
      \<and> map_of flat ''code'' = Some (JInt 1)
      \<and> map_of flat ''nested'' = None\<close>
proof -
  have o: "sample_nested_log
            = [(''message'', JStr ''a'')]
              @ (''data'', JObj [(''code'', JInt 1), (''nested'', JObj [])])
              # [(''@timestamp'', JStr ''1'')]"
    by (simp add: sample_nested_log_def)
  have d1: "distinct (map fst sample_nested_log)"
    by (simp add: sample_nested_log_def)
  have d2: "distinct (map fst [(''code'', JInt 1), (''nested'', JObj [])])"
    by simp
  have dumps: \<open>json_dumps sample_runtime (JObj [(''code'', JInt 1), (''nested'', JObj [])])
                = ''{"code": 1, "nested": {}}''\<close>
    by (simp add: sample_runtime_def sample_dumps_def)
  from flatten_object_data[OF o d1 d2, of sample_runtime] obtain flat where
    f: "flatten_object sample_runtime sample_nested_log = Inr flat"
    "map_of flat ''data''
       = Some (JStr (json_dumps sample_runtime (JObj [(''code'', JInt 1), (''nested'', JObj [])])))"
    "map_of flat ''logVerstion'' = Some (JStr ''v3'')"
    and p: "\<forall>k v. map_of [(''code'', JInt 1), (''nested'', JObj [])] k = Some v \<and> is_simple_value v
               \<and> k \<noteq> ''data'' \<and> k \<noteq> ''logVerstion'' \<and> k \<notin> fst ` set [(''@timestamp'', JStr ''1'')]
             \<longrightarrow> map_of flat k = Some v"
    and q: "\<forall>k v. map_of [(''code'', JInt 1), (''nested'', JObj [])] k = Some v \<and> \<not> is_simple_value v
               \<and> k \<noteq> ''logVerstion'' \<and> k \<notin> fst ` set sample_nested_log
             \<longrightarrow> map_of flat k = None"
    by blast
  from p have c: "map_of flat ''code'' = Some (JInt 1)" by simp
  from q have n: "map_of flat ''nested'' = None" by (simp add: sample_nested_log_def)
  from f c n dumps show ?thesis by simp
qed

text \<open>
  Outside the amended claim: a \<^verbatim>\<open>data\<close> field that is composite without being a
  dictionary (a list, or \<^verbatim>\<open>None\<close>) has no \<^verbatim>\<open>items\<close> method, and flattening
  raises \<^verbatim>\<open>AttributeError\<close>.
\<close>

lemma flatten_object_data_not_dict:
  "flatten_object rt [(''data'', JList xs)] = Inl AttributeError
   \<and> flatten_object rt [(''data'', JNull)] = Inl AttributeError"
  by (simp add: flatten_object_def py_items_def)

section \<open>Properties of the handler\<close>






section \<open>Properties of the context enricher\<close>

text \<open>
  C5 at a context object without the attribute \<^verbatim>\<open>function_version\<close>: reading the
  attribute raises \<^verbatim>\<open>AttributeError\<close>, the handler catches \<^verbatim>\<open>KeyError\<close> only,
  and the enricher fails.
\<close>

theorem get_additional_logs_data_missing_attribute:
  "get_additional_logs_data sample_runtime sample_batch Map.empty = Inl AttributeError"
  by (simp add: get_additional_logs_data_def additional_fields_def sample_batch_def
      py_subscript_def getitem_def add_context_def getattr_def)

text \<open>The same with \<^verbatim>\<open>invoked_function_arn\<close> as the missing attribute.\<close>

lemma get_additional_logs_data_missing_arn:
  "get_additional_logs_data sample_runtime sample_batch [''function_version'' \<mapsto> JStr ''$LATEST'']
     = Inl AttributeError"
  by (simp add: get_additional_logs_data_def additional_fields_def sample_batch_def
      py_subscript_def getitem_def add_context_def getattr_def)

end
